theory Spec2Isabelle
  imports Complex_Main
begin

section \<open>Rimborso KM: the browser-side controllers\<close>

text \<open>
  A shallow embedding of the event handlers of \<^verbatim>\<open>trasferte.js\<close>,
  \<^verbatim>\<open>address-autocomplete.js\<close> and \<^verbatim>\<open>archivio.js\<close>.

  Conventions, the same everywhere:
  \<^item> where the script computes with a number (the reimbursement estimate) the number is a
    binary64 \<open>double\<close> with the IEEE product; where it only tests a number for falsiness
    and sends it on (the submit handlers) the number is a \<^typ>\<open>real\<close>, and
    \<^verbatim>\<open>NaN\<close> is \<open>None\<close> of a \<^typ>\<open>real option\<close>;
  \<^item> what \<^verbatim>\<open>parseFloat\<close> and \<^verbatim>\<open>parseInt\<close> return for a form field is part
    of the input: a numeric field is given by its parsed value;
  \<^item> a text field is a \<^typ>\<open>string\<close>, one \<^typ>\<open>char\<close> per code unit (code units
    below 256);
  \<^item> a handler returns the list of its effects in the order it performs them: the toasts
    it shows and the HTTP requests it issues. What the network answers is an argument.
\<close>

subsection \<open>Toasts, requests and effects\<close>

text \<open>The second argument of \<^verbatim>\<open>mostraToast(messaggio, tipo)\<close>.\<close>

datatype tipo_toast = T_success | T_warning | T_error | T_info

text \<open>
  The first argument of \<^verbatim>\<open>mostraToast\<close>: one constructor per literal or template of
  the source (the constructor spells it; its arguments are the values the template
  interpolates, \<open>Croce\<close> is the leading cross mark), \<open>Testo\<close> for a message taken from a
  server reply. \<open>formato\<close> is the second argument of \<^verbatim>\<open>esportaSelezionate\<close>,
  \<^verbatim>\<open>'excel'\<close> or \<^verbatim>\<open>'pdf'\<close>.
\<close>

datatype formato = Excel | Pdf

datatype messaggio =
    Compila_tutti_i_campi_obbligatori
  | CAP_partenza_deve_essere_5_cifre
  | CAP_arrivo_deve_essere_5_cifre
  | Trasferta_salvata_con_successo
  | Trasferta_salvata_ma_errore_nell_upload_allegato
  | Errore_salvataggio_trasferta
  | Trasferta_modificata_con_successo
  | Errore_modifica_trasferta
  | File_troppo_grande_max_10_MB
  | Allegato_caricato_con_successo
  | Errore_due_punti string
  | Seleziona_almeno_una_trasferta
  | Nessuna_trasferta_da_esportare
  | Generazione formato
  | Errore_durante_l_export formato
  | Croce_Errore_durante_l_export formato
  | Formato_esportato formato nat
  | Nessun_allegato_disponibile_nelle_trasferte_selezionate
  | Errore_durante_il_download
  | ZIP_scaricato_con_allegati nat
  | Testo string

datatype http_method = GET | POST | PUT | DELETE

text \<open>
  The object \<^verbatim>\<open>data\<close> both submit handlers build from the form. \<open>chilometri\<close> is
  \<^verbatim>\<open>parseFloat\<close> of the distance field and \<open>veicolo_id\<close> is \<^verbatim>\<open>parseInt\<close> of the
  vehicle select (\<open>None\<close>: NaN, as for the placeholder option whose value is empty).
\<close>

record dati_trasferta =
  data :: string
  nome_partenza :: string
  via_partenza :: string
  citta_partenza :: string
  cap_partenza :: string
  paese_partenza :: string
  nome_arrivo :: string
  via_arrivo :: string
  citta_arrivo :: string
  cap_arrivo :: string
  paese_arrivo :: string
  chilometri :: "real option"
  motivo :: string
  veicolo_id :: "int option"
  note_trasferta :: string
  andata_ritorno :: bool

text \<open>A \<^verbatim>\<open>File\<close> of the attachment input: its name and its size in bytes.\<close>

record allegato =
  file_name :: string
  file_size :: nat

text \<open>
  The URLs the handlers call. \<open>Api_trasferte_id i\<close> is
  \<^verbatim>\<open>`${API_TRASFERTE}/${id}`\<close> and \<open>Api_allegato_upload i\<close> is
  \<^verbatim>\<open>`/api/trasferte/${trasferta_id}/allegato/upload`\<close>; the identifier is \<open>None\<close> when
  the script has NaN or \<^verbatim>\<open>undefined\<close> there.
\<close>

datatype endpoint =
    Api_trasferte
  | Api_trasferte_id "int option"
  | Api_allegato_upload "int option"
  | Api_esporta_excel
  | Api_esporta_pdf
  | Api_allegati_download_zip
  | Nominatim_search

datatype corpo =
    Nessun_corpo
  | Json_dati dati_trasferta
  | Form_data_file allegato
  | Json_trasferta_ids "int list"
  | Query_nominatim string "string option"

text \<open>The name of a downloaded file, without the date of the day it contains.\<close>

datatype nome_file = Trasferte_xlsx | Trasferte_pdf | Trasferte_allegati_zip

datatype effetto =
    Toast messaggio tipo_toast
  | Richiesta http_method endpoint corpo
  | Form_reset
  | Modal_close
  | Download nome_file

text \<open>A promise the handler awaits either rejects or resolves with a value.\<close>

datatype 'a esito = Rifiutata | Risolta 'a

fun is_richiesta :: "effetto \<Rightarrow> bool" where
  "is_richiesta (Richiesta m e c) = True"
| "is_richiesta _ = False"

fun is_upload :: "effetto \<Rightarrow> bool" where
  "is_upload (Richiesta m (Api_allegato_upload i) c) = True"
| "is_upload _ = False"

fun is_delete :: "effetto \<Rightarrow> bool" where
  "is_delete (Richiesta DELETE e c) = True"
| "is_delete _ = False"

subsection \<open>JavaScript numbers\<close>








text \<open>Dropping the \<open>k\<close> low digits of \<open>m\<close>, rounding to the nearest, a tie to the even
  result.\<close>

definition drop_digits :: "nat \<Rightarrow> nat \<Rightarrow> nat" where
  "drop_digits k m =
     (let q = m div 2 ^ k;
          r = m mod 2 ^ k;
          half = 2 ^ (k - 1)
      in if half < r \<or> (r = half \<and> odd q) then q + 1 else q)"







subsection \<open>trasferte.js: the reimbursement estimate\<close>









subsection \<open>trasferte.js: submitting the create form\<close>

text \<open>\<^verbatim>\<open>!x\<close> for a number: NaN and 0 are falsy, every other number is truthy.\<close>

definition falsy_num :: "real option \<Rightarrow> bool" where
  "falsy_num p = (p = None \<or> p = Some 0)"

definition falsy_int :: "int option \<Rightarrow> bool" where
  "falsy_int p = (p = None \<or> p = Some 0)"

definition is_digit :: "char \<Rightarrow> bool" where
  "is_digit c = (c \<in> set ''0123456789'')"

text \<open>
  \<^verbatim>\<open>/^\d{5}$/.test(s)\<close>: without the multiline flag the anchors are the two ends of
  the string, so the whole string is five ASCII digits.
\<close>

definition cap_valido :: "string \<Rightarrow> bool" where
  "cap_valido s = (length s = 5 \<and> list_all is_digit s)"

text \<open>The first \<^verbatim>\<open>if\<close> of the create handler: the disjunction of the ten \<^verbatim>\<open>!data.x\<close>.\<close>

definition campo_mancante :: "dati_trasferta \<Rightarrow> bool" where
  "campo_mancante d =
     (data d = [] \<or> via_partenza d = [] \<or> citta_partenza d = [] \<or> cap_partenza d = [] \<or>
      via_arrivo d = [] \<or> citta_arrivo d = [] \<or> cap_arrivo d = [] \<or>
      falsy_num (chilometri d) \<or> motivo d = [] \<or> falsy_int (veicolo_id d))"

text \<open>
  What the upload request ends with: a reply that is ok, or an exception (a rejected
  fetch, a reply that is not ok, a reply that is not JSON) with its message.
\<close>

datatype esito_upload = Upload_ok | Upload_fallito string

text \<open>
  \<^verbatim>\<open>caricaAllegatoTrasferta\<close>: the effects, and whether the promise resolves or rejects
  (the \<^verbatim>\<open>catch\<close> shows a toast and throws the exception again).
\<close>

definition caricaAllegatoTrasferta ::
  "int option \<Rightarrow> allegato \<Rightarrow> esito_upload \<Rightarrow> effetto list \<times> unit esito" where
  "caricaAllegatoTrasferta trasferta_id file eu =
     (case eu of
        Upload_ok \<Rightarrow>
          ([Richiesta POST (Api_allegato_upload trasferta_id) (Form_data_file file),
            Toast Allegato_caricato_con_successo T_success], Risolta ())
      | Upload_fallito msg \<Rightarrow>
          ([Richiesta POST (Api_allegato_upload trasferta_id) (Form_data_file file),
            Toast (Errore_due_punti msg) T_error], Rifiutata))"

text \<open>
  The part of the create handler after a successful POST: the success toast, the upload of
  \<^verbatim>\<open>fileInput.files[0]\<close> when there is one (a failure is caught and becomes a warning),
  the reset of the form and \<^verbatim>\<open>caricaTrasferte()\<close>, which requests the list again.
\<close>

definition dopo_salvataggio :: "int option \<Rightarrow> allegato option \<Rightarrow> esito_upload \<Rightarrow> effetto list" where
  "dopo_salvataggio risultato_id files eu =
     Toast Trasferta_salvata_con_successo T_success #
     (case files of
        None \<Rightarrow> []
      | Some file \<Rightarrow>
          (case caricaAllegatoTrasferta risultato_id file eu of
             (effs, Risolta u) \<Rightarrow> effs
           | (effs, Rifiutata) \<Rightarrow>
               effs @ [Toast Trasferta_salvata_ma_errore_nell_upload_allegato T_warning])) @
     [Form_reset, Richiesta GET Api_trasferte Nessun_corpo]"

text \<open>
  The \<^verbatim>\<open>submit\<close> listener of \<^verbatim>\<open>#form-trasferta\<close>. \<open>ec\<close> is how
  \<^verbatim>\<open>fetchApi(API_TRASFERTE, {method: 'POST', ...})\<close> ends: rejected (network failure or a
  reply that is not ok) or resolved with \<^verbatim>\<open>risultato.id\<close>.
\<close>

definition submit_form_trasferta ::
  "dati_trasferta \<Rightarrow> allegato option \<Rightarrow> int option esito \<Rightarrow> esito_upload \<Rightarrow> effetto list" where
  "submit_form_trasferta d files ec eu =
     (if campo_mancante d then [Toast Compila_tutti_i_campi_obbligatori T_warning]
      else if \<not> cap_valido (cap_partenza d) then [Toast CAP_partenza_deve_essere_5_cifre T_warning]
      else if \<not> cap_valido (cap_arrivo d) then [Toast CAP_arrivo_deve_essere_5_cifre T_warning]
      else Richiesta POST Api_trasferte (Json_dati d) #
        (case ec of
           Rifiutata \<Rightarrow> [Toast Errore_salvataggio_trasferta T_error]
         | Risolta risultato_id \<Rightarrow> dopo_salvataggio risultato_id files eu))"

subsection \<open>trasferte.js: the attachment input\<close>

text \<open>
  \<^verbatim>\<open>#trasferta-allegato\<close> with its preview: the selected file, whether the preview is
  displayed, and the file the preview text was last written for.
\<close>

record input_allegato =
  files :: "allegato option"
  preview_display :: bool
  preview_text :: "allegato option"

text \<open>
  The \<^verbatim>\<open>change\<close> listener of the attachment input; \<open>scelta\<close> is the file the user has
  just chosen (\<open>None\<close>: the choice was cleared). \<^verbatim>\<open>e.target.value = ''\<close> empties the
  selection.
\<close>

definition change_allegato :: "allegato option \<Rightarrow> input_allegato \<Rightarrow> input_allegato \<times> effetto list" where
  "change_allegato scelta st =
     (case scelta of
        Some file \<Rightarrow>
          if file_size file > 10 * 1024 * 1024
          then (st\<lparr>files := None, preview_display := False\<rparr>,
                [Toast File_troppo_grande_max_10_MB T_error])
          else (st\<lparr>files := Some file, preview_display := True, preview_text := Some file\<rparr>, [])
      | None \<Rightarrow> (st\<lparr>files := None, preview_display := False\<rparr>, []))"

subsection \<open>trasferte.js: submitting the edit form\<close>

text \<open>
  The \<^verbatim>\<open>submit\<close> listener of \<^verbatim>\<open>#form-edit-trasferta\<close>; \<open>edit_id\<close> is
  \<^verbatim>\<open>parseInt\<close> of the hidden id field and \<open>ep\<close> is how the PUT ends.
\<close>

definition submit_form_edit_trasferta ::
  "int option \<Rightarrow> dati_trasferta \<Rightarrow> unit esito \<Rightarrow> effetto list" where
  "submit_form_edit_trasferta edit_id d ep =
     (if \<not> cap_valido (cap_partenza d) then [Toast CAP_partenza_deve_essere_5_cifre T_warning]
      else if \<not> cap_valido (cap_arrivo d) then [Toast CAP_arrivo_deve_essere_5_cifre T_warning]
      else Richiesta PUT (Api_trasferte_id edit_id) (Json_dati d) #
        (case ep of
           Rifiutata \<Rightarrow> [Toast Errore_modifica_trasferta T_error]
         | Risolta u \<Rightarrow>
             [Toast Trasferta_modificata_con_successo T_success, Modal_close,
              Richiesta GET Api_trasferte Nessun_corpo]))"

text \<open>A form filled in completely, used for the concrete cases below.\<close>

definition dati_esempio :: dati_trasferta where
  "dati_esempio =
     \<lparr>data = ''2026-01-13'', nome_partenza = ''Sede'', via_partenza = ''Via Roma 1'',
      citta_partenza = ''Milano'', cap_partenza = ''20100'', paese_partenza = ''Italia'',
      nome_arrivo = ''Cliente'', via_arrivo = ''Corso Francia 10'', citta_arrivo = ''Torino'',
      cap_arrivo = ''10100'', paese_arrivo = ''Italia'', chilometri = Some 100,
      motivo = ''Visita cliente'', veicolo_id = Some 1, note_trasferta = [],
      andata_ritorno = False\<rparr>"




text \<open>Concrete forms and files for the cases below: a distance of -5, an empty reason, a file of
  10 MB and one byte, a file of exactly 10 MB, and the attachment input with nothing chosen.\<close>

definition dati_km_negativi :: dati_trasferta where
  "dati_km_negativi = dati_esempio\<lparr>chilometri := Some (- 5)\<rparr>"

definition dati_senza_motivo :: dati_trasferta where
  "dati_senza_motivo = dati_esempio\<lparr>motivo := []\<rparr>"

definition file_grande :: allegato where
  "file_grande = \<lparr>file_name = ''scontrino.pdf'', file_size = 10485761\<rparr>"

definition file_piccolo :: allegato where
  "file_piccolo = \<lparr>file_name = ''scontrino.pdf'', file_size = 10485760\<rparr>"

definition input_allegato_vuoto :: input_allegato where
  "input_allegato_vuoto = \<lparr>files = None, preview_display = False, preview_text = None\<rparr>"

subsection \<open>address-autocomplete.js: the geocoding client\<close>

text \<open>
  A JavaScript value as \<^verbatim>\<open>response.json()\<close> and property access produce it. The keys of
  an object are distinct.
\<close>

datatype jsval =
    JUndefined
  | JNull
  | JBool bool
  | JNum real
  | JStr string
  | JArr "jsval list"
  | JObj "(string \<times> jsval) list"

text \<open>The exceptions of the client, by their \<^verbatim>\<open>name\<close>.\<close>

datatype js_error = AbortError | TypeError | SyntaxError

text \<open>\<^verbatim>\<open>r.k\<close>: a TypeError on \<^verbatim>\<open>null\<close> and \<^verbatim>\<open>undefined\<close>, the value stored under the
  key for an object that has it, \<^verbatim>\<open>undefined\<close> otherwise (none of the keys the script
  reads is a property of a string, a number, a boolean or an array).\<close>

fun get_prop :: "jsval \<Rightarrow> string \<Rightarrow> js_error + jsval" where
  "get_prop JUndefined k = Inl TypeError"
| "get_prop JNull k = Inl TypeError"
| "get_prop (JObj kvs) k = Inr (case map_of kvs k of None \<Rightarrow> JUndefined | Some v \<Rightarrow> v)"
| "get_prop v k = Inr JUndefined"

text \<open>Truthiness: what \<^verbatim>\<open>!v\<close> and \<^verbatim>\<open>v || w\<close> test.\<close>

fun truthy :: "jsval \<Rightarrow> bool" where
  "truthy JUndefined = False"
| "truthy JNull = False"
| "truthy (JBool b) = b"
| "truthy (JNum x) = (x \<noteq> 0)"
| "truthy (JStr s) = (s \<noteq> [])"
| "truthy (JArr vs) = True"
| "truthy (JObj kvs) = True"

text \<open>\<^verbatim>\<open>parseFloat(v)\<close>, left uninterpreted: the number the browser parses from \<open>v\<close>.\<close>

datatype numero = ParseFloat jsval

text \<open>The object the client returns for one result of the service.\<close>

record suggerimento =
  s_name :: jsval
  s_address :: jsval
  s_lat :: numero
  s_lon :: numero
  s_type :: jsval

text \<open>The arrow function of \<^verbatim>\<open>results.map\<close>; the first property access throws when the
  element is \<^verbatim>\<open>null\<close>.\<close>

definition normalizza :: "jsval \<Rightarrow> js_error + suggerimento" where
  "normalizza r =
     (case (get_prop r ''display_name'', get_prop r ''address'', get_prop r ''lat'',
            get_prop r ''lon'', get_prop r ''type'') of
        (Inr n, Inr a, Inr la, Inr lo, Inr t) \<Rightarrow>
          Inr \<lparr>s_name = n, s_address = a, s_lat = ParseFloat la, s_lon = ParseFloat lo,
               s_type = (if truthy t then t else JStr ''address'')\<rparr>
      | _ \<Rightarrow> Inl TypeError)"

text \<open>\<^verbatim>\<open>Array.prototype.map\<close> with a callback that may throw: the first exception ends it.\<close>

fun map_throw :: "('a \<Rightarrow> js_error + 'b) \<Rightarrow> 'a list \<Rightarrow> js_error + 'b list" where
  "map_throw f [] = Inr []"
| "map_throw f (x # xs) =
     (case f x of
        Inl e \<Rightarrow> Inl e
      | Inr y \<Rightarrow> (case map_throw f xs of Inl e \<Rightarrow> Inl e | Inr ys \<Rightarrow> Inr (y # ys)))"

text \<open>
  How the awaited \<^verbatim>\<open>fetch\<close> ends: the 5 second timer (\<^verbatim>\<open>NOMINATIM_TIMEOUT\<close>) fires
  first and \<^verbatim>\<open>controller.abort()\<close> rejects it with an AbortError; or the network fails
  and it rejects with a TypeError; or a response arrives, with its status and the value
  \<^verbatim>\<open>response.json()\<close> resolves with (\<open>None\<close>: the body is not JSON and it rejects).
\<close>

datatype esito_fetch =
    Fetch_timeout
  | Fetch_errore_rete
  | Fetch_risposta nat "jsval option"

datatype livello = L_log | L_warn | L_error

text \<open>What one call of the client does and returns: the requests it issued, the lines it
  wrote to the console (level and first argument), and the value its promise settles with
  (\<open>Inl\<close>: rejected with that exception).\<close>

record ricerca =
  richieste :: "effetto list"
  console :: "(livello \<times> string) list"
  valore :: "js_error + suggerimento list"

text \<open>The request of the client: the query and \<^verbatim>\<open>countrycodes\<close>, which is appended only
  for a truthy \<^verbatim>\<open>countryCode\<close>. The other parameters are constants.\<close>

definition richiesta_nominatim :: "string \<Rightarrow> string \<Rightarrow> effetto" where
  "richiesta_nominatim query countryCode =
     Richiesta GET Nominatim_search
       (Query_nominatim query (if countryCode = [] then None else Some countryCode))"

text \<open>The body of the \<^verbatim>\<open>try\<close> block after the fetch was started: the console lines and
  either the value returned or the exception thrown.\<close>

definition ricerca_try ::
  "esito_fetch \<Rightarrow> (livello \<times> string) list \<times> (js_error + suggerimento list)" where
  "ricerca_try ef =
     (case ef of
        Fetch_timeout \<Rightarrow> ([(L_log, ''[ADDRESS-AUTOCOMPLETE] Ricerca:'')], Inl AbortError)
      | Fetch_errore_rete \<Rightarrow> ([(L_log, ''[ADDRESS-AUTOCOMPLETE] Ricerca:'')], Inl TypeError)
      | Fetch_risposta status body \<Rightarrow>
          if \<not> (200 \<le> status \<and> status \<le> 299)
          then ([(L_log, ''[ADDRESS-AUTOCOMPLETE] Ricerca:''),
                 (L_error, ''[ADDRESS-AUTOCOMPLETE] Errore:'')], Inr [])
          else (case body of
                  None \<Rightarrow> ([(L_log, ''[ADDRESS-AUTOCOMPLETE] Ricerca:'')], Inl SyntaxError)
                | Some (JArr results) \<Rightarrow>
                    ([(L_log, ''[ADDRESS-AUTOCOMPLETE] Ricerca:''),
                      (L_log, ''[ADDRESS-AUTOCOMPLETE] Risultati:'')],
                     map_throw normalizza results)
                | Some _ \<Rightarrow>
                    ([(L_log, ''[ADDRESS-AUTOCOMPLETE] Ricerca:''),
                      (L_error, ''[ADDRESS-AUTOCOMPLETE] Risposta non valida:'')], Inr [])))"

text \<open>The \<^verbatim>\<open>catch\<close> block: a warning for an AbortError, an error line for any other
  exception, and the empty array is returned.\<close>

definition ricerca_catch :: "js_error \<Rightarrow> (livello \<times> string) list" where
  "ricerca_catch e =
     (if e = AbortError then [(L_warn, ''[ADDRESS-AUTOCOMPLETE] Timeout'')]
      else [(L_error, ''[ADDRESS-AUTOCOMPLETE] Errore:'')])"

text \<open>\<^verbatim>\<open>addressAutocompleteSearch(query, countryCode)\<close>, with how its fetch ends. The guard
  tests the query as it is passed (it is not trimmed here).\<close>

definition addressAutocompleteSearch :: "string \<Rightarrow> string \<Rightarrow> esito_fetch \<Rightarrow> ricerca" where
  "addressAutocompleteSearch query countryCode ef =
     (if query = [] \<or> length query < 2 then \<lparr>richieste = [], console = [], valore = Inr []\<rparr>
      else (case ricerca_try ef of
              (lines, Inr rs) \<Rightarrow>
                \<lparr>richieste = [richiesta_nominatim query countryCode], console = lines,
                 valore = Inr rs\<rparr>
            | (lines, Inl e) \<Rightarrow>
                \<lparr>richieste = [richiesta_nominatim query countryCode],
                 console = lines @ ricerca_catch e, valore = Inr []\<rparr>))"

subsection \<open>address-autocomplete.js: the autocomplete controller\<close>

text \<open>White space as \<^verbatim>\<open>String.prototype.trim\<close> removes it, among the code units below 256:
  tab, line feed, vertical tab, form feed, carriage return, space, no-break space.\<close>

definition is_white_space :: "char \<Rightarrow> bool" where
  "is_white_space c =
     (c \<in> set [CHR 0x09, CHR 0x0A, CHR 0x0B, CHR 0x0C, CHR 0x0D, CHR 0x20, CHR 0xA0])"

definition trim_js :: "string \<Rightarrow> string" where
  "trim_js s = rev (dropWhile is_white_space (rev (dropWhile is_white_space s)))"

text \<open>What \<^verbatim>\<open>list.innerHTML\<close> holds: nothing, the notice that nothing was found, one row
  per suggestion, or the notice of an error.\<close>

datatype contenuto_lista =
    Lista_vuota
  | Nessun_risultato_trovato
  | Voci "suggerimento list"
  | Errore_nella_ricerca

text \<open>
  The variables one call of \<^verbatim>\<open>initAddressAutocomplete\<close> closes over, the list element,
  and the event loop's pending work for this binding:
  \<^item> \<open>debounceTimer\<close>: the query captured by the pending 400 ms timeout (\<open>None\<close> when it
    was cleared or has fired);
  \<^item> \<open>currentRequest\<close>: \<^verbatim>\<open>true\<close> or \<^verbatim>\<open>null\<close>;
  \<^item> \<open>in_volo\<close>: the timeout callbacks suspended at \<^verbatim>\<open>await addressAutocompleteSearch\<close>,
    numbered in the order they started, each with its query;
  \<^item> \<open>avviate\<close>: how many searches have been started;
  \<^item> \<open>timer_nascondi\<close>: how many 2 second timeouts that hide the list are pending.
\<close>

record autocomplete =
  countryCode :: string
  debounceTimer :: "string option"
  currentRequest :: bool
  lastResults :: "suggerimento list"
  list_show :: bool
  list_html :: contenuto_lista
  in_volo :: "(nat \<times> string) list"
  avviate :: nat
  timer_nascondi :: nat

text \<open>The state after \<^verbatim>\<open>initAddressAutocomplete\<close>; \<^verbatim>\<open>options.countryCode || 'it'\<close>.\<close>

definition initAddressAutocomplete :: "string \<Rightarrow> autocomplete" where
  "initAddressAutocomplete cc =
     \<lparr>countryCode = (if cc = [] then ''it'' else cc), debounceTimer = None,
      currentRequest = False, lastResults = [], list_show = False, list_html = Lista_vuota,
      in_volo = [], avviate = 0, timer_nascondi = 0\<rparr>"

text \<open>The events of one binding: an \<^verbatim>\<open>input\<close> event with the value of the field, the
  debounce timeout firing, the fetch of search number \<open>n\<close> ending, a hide timeout firing, and
  a click outside the input and the list. A click on a row and the Enter key, which touch
  neither the timeout nor \<^verbatim>\<open>currentRequest\<close>, are left out.\<close>

datatype evento_ac =
    Input string
  | Timer_debounce
  | Fetch_concluso nat esito_fetch
  | Timer_nascondi
  | Click_fuori

text \<open>The \<^verbatim>\<open>input\<close> listener up to the point where it sets the new timeout.\<close>

definition on_input :: "string \<Rightarrow> autocomplete \<Rightarrow> autocomplete" where
  "on_input v s =
     (let s1 = s\<lparr>debounceTimer := None, currentRequest := False\<rparr>;
          query = trim_js v
      in if length query < 2 then s1\<lparr>list_show := False, list_html := Lista_vuota\<rparr>
         else s1\<lparr>debounceTimer := Some query\<rparr>)"

text \<open>The timeout callback up to its \<^verbatim>\<open>await\<close>: it sets \<^verbatim>\<open>currentRequest = true\<close> and
  calls the client, which issues its request (or none, for a query the client's guard
  refuses) before the callback is suspended. The requests of a call are the same however
  its fetch ends later, so they are read off the call with one of the endings.\<close>

definition on_timer_debounce :: "autocomplete \<Rightarrow> autocomplete \<times> effetto list" where
  "on_timer_debounce s =
     (case debounceTimer s of
        None \<Rightarrow> (s, [])
      | Some query \<Rightarrow>
          (s\<lparr>debounceTimer := None, currentRequest := True,
             in_volo := in_volo s @ [(avviate s, query)], avviate := Suc (avviate s)\<rparr>,
           richieste (addressAutocompleteSearch query (countryCode s) Fetch_errore_rete)))"

text \<open>\<^verbatim>\<open>escapeHtml(unsafe)\<close> returns the empty string for a falsy argument and calls
  \<^verbatim>\<open>unsafe.replace\<close> otherwise, which only a string has.\<close>

fun escapeHtml_lancia :: "jsval \<Rightarrow> bool" where
  "escapeHtml_lancia (JStr s) = False"
| "escapeHtml_lancia v = truthy v"

text \<open>The rest of the timeout callback, run when its search has settled with \<open>risultati\<close>:
  the \<^verbatim>\<open>try\<close> with the test of \<^verbatim>\<open>currentRequest\<close>, the \<^verbatim>\<open>catch\<close>, and the
  \<^verbatim>\<open>finally\<close> that sets \<^verbatim>\<open>currentRequest = null\<close> on every path.\<close>

definition dopo_ricerca :: "js_error + suggerimento list \<Rightarrow> autocomplete \<Rightarrow> autocomplete" where
  "dopo_ricerca risultati s =
     (if \<not> currentRequest s then s
      else (case risultati of
              Inl e \<Rightarrow> s\<lparr>list_html := Errore_nella_ricerca, list_show := True\<rparr>
            | Inr rs \<Rightarrow>
                if rs = []
                then s\<lparr>lastResults := rs, list_html := Nessun_risultato_trovato,
                       list_show := True, timer_nascondi := Suc (timer_nascondi s)\<rparr>
                else if list_ex (\<lambda>r. escapeHtml_lancia (s_name r) \<or>
                                      escapeHtml_lancia (s_type r)) rs
                then s\<lparr>lastResults := rs, list_html := Errore_nella_ricerca, list_show := True\<rparr>
                else s\<lparr>lastResults := rs, list_html := Voci rs, list_show := True\<rparr>))
     \<lparr>currentRequest := False\<rparr>"

text \<open>The fetch of search \<open>n\<close> ends with \<open>ef\<close>: the client finishes and the suspended
  callback of that search resumes.\<close>

definition on_fetch_concluso :: "nat \<Rightarrow> esito_fetch \<Rightarrow> autocomplete \<Rightarrow> autocomplete" where
  "on_fetch_concluso n ef s =
     (case map_of (in_volo s) n of
        None \<Rightarrow> s
      | Some query \<Rightarrow>
          dopo_ricerca (valore (addressAutocompleteSearch query (countryCode s) ef))
            (s\<lparr>in_volo := filter (\<lambda>p. fst p \<noteq> n) (in_volo s)\<rparr>))"

fun passo :: "evento_ac \<Rightarrow> autocomplete \<Rightarrow> autocomplete \<times> effetto list" where
  "passo (Input v) s = (on_input v s, [])"
| "passo Timer_debounce s = on_timer_debounce s"
| "passo (Fetch_concluso n ef) s = (on_fetch_concluso n ef s, [])"
| "passo Timer_nascondi s =
     (if timer_nascondi s = 0 then (s, [])
      else (s\<lparr>list_show := False, timer_nascondi := timer_nascondi s - 1\<rparr>, []))"
| "passo Click_fuori s = (s\<lparr>list_show := False\<rparr>, [])"

text \<open>A sequence of events, in the order the event loop runs them.\<close>

fun esegui :: "evento_ac list \<Rightarrow> autocomplete \<Rightarrow> autocomplete \<times> effetto list" where
  "esegui [] s = (s, [])"
| "esegui (e # es) s =
     (case passo e s of (s1, effs1) \<Rightarrow> (case esegui es s1 of (s2, effs2) \<Rightarrow> (s2, effs1 @ effs2)))"

text \<open>Replies of the service for the concrete cases: one result named after the query.\<close>

definition risposta_esempio :: "string \<Rightarrow> esito_fetch" where
  "risposta_esempio nome =
     Fetch_risposta 200 (Some (JArr [JObj [(''display_name'', JStr nome), (''lat'', JStr ''45.4''),
       (''lon'', JStr ''9.1''), (''type'', JStr ''city'')]]))"

definition suggerimento_esempio :: "string \<Rightarrow> suggerimento" where
  "suggerimento_esempio nome =
     \<lparr>s_name = JStr nome, s_address = JUndefined, s_lat = ParseFloat (JStr ''45.4''),
      s_lon = ParseFloat (JStr ''9.1''), s_type = JStr ''city''\<rparr>"

text \<open>Two runs of one binding. In the first, search 0 (for ``ro'') is still in flight when the
  user types again twice; search 1 (for ``rom'') ends before it, and search 2 (for ``roma'')
  has started when search 0 ends. In the second, search 0 ends while search 1 is in flight.\<close>

definition traccia_tre_ricerche :: "evento_ac list" where
  "traccia_tre_ricerche =
     [Input ''ro'', Timer_debounce,
      Input ''rom'', Timer_debounce,
      Fetch_concluso 1 (risposta_esempio ''Romania''),
      Input ''roma'', Timer_debounce,
      Fetch_concluso 0 (risposta_esempio ''Rovigo'')]"

definition traccia_due_ricerche :: "evento_ac list" where
  "traccia_due_ricerche =
     [Input ''ro'', Timer_debounce,
      Input ''rom'', Timer_debounce,
      Fetch_concluso 0 (risposta_esempio ''Rovigo''),
      Fetch_concluso 1 (risposta_esempio ''Romania'')]"

subsection \<open>archivio.js: the list, the quick filters and the selection\<close>

text \<open>A trip of the list: its \<^verbatim>\<open>id\<close>, the year and the month (0 to 11) that
  \<^verbatim>\<open>new Date(t.data)\<close> reports, and \<^verbatim>\<open>ha_allegato\<close>.\<close>

record trasferta =
  t_id :: int
  anno :: int
  mese :: int
  ha_allegato :: bool

text \<open>The \<^verbatim>\<open>Set\<close> of selected identifiers, as the list of its elements in insertion order:
  \<^verbatim>\<open>add\<close> appends an element that is not there, \<^verbatim>\<open>delete\<close> removes it, \<^verbatim>\<open>size\<close> is the
  length, \<^verbatim>\<open>has(x)\<close> is membership.\<close>

definition set_add :: "int \<Rightarrow> int list \<Rightarrow> int list" where
  "set_add x xs = (if x \<in> set xs then xs else xs @ [x])"

definition set_delete :: "int \<Rightarrow> int list \<Rightarrow> int list" where
  "set_delete x xs = filter (\<lambda>y. y \<noteq> x) xs"

text \<open>The table \<^verbatim>\<open>visualizzaTutteLeTrasferte\<close> renders: one checkbox \<^verbatim>\<open>.cb-trasferta\<close> per
  trip (its \<^verbatim>\<open>data-id\<close> and whether it is checked), the checkbox \<^verbatim>\<open>#cb-select-all\<close>, and
  the number shown in \<^verbatim>\<open>.selection-counter strong\<close>. The listeners of a table close over
  the rendered list, whose length is the number of the checkboxes.\<close>

record tabella =
  cb_trasferta :: "(int \<times> bool) list"
  cb_select_all :: bool
  contatore :: nat

text \<open>The three globals of the script and the rendered table (\<open>None\<close> when the list element
  shows the empty state and there is no table).\<close>

record archivio =
  allTrasferte :: "trasferta list"
  filteredTrasferte :: "trasferta list"
  selectedTrasferte :: "int list"
  tab :: "tabella option"

text \<open>\<^verbatim>\<open>visualizzaTutteLeTrasferte(trasferte)\<close> with \<^verbatim>\<open>setupCheckboxListeners\<close>: the new
  table has every checkbox unchecked, then the checkboxes of the selected trips are checked
  and \<^verbatim>\<open>aggiornaContatore\<close> writes the size of the set.\<close>

definition visualizzaTutteLeTrasferte :: "trasferta list \<Rightarrow> archivio \<Rightarrow> archivio" where
  "visualizzaTutteLeTrasferte trasferte s =
     (if trasferte = [] then s\<lparr>filteredTrasferte := trasferte, tab := None\<rparr>
      else s\<lparr>filteredTrasferte := trasferte,
             tab := Some \<lparr>cb_trasferta =
                            map (\<lambda>t. (t_id t, t_id t \<in> set (selectedTrasferte s))) trasferte,
                          cb_select_all = False,
                          contatore = length (selectedTrasferte s)\<rparr>\<rparr>)"

text \<open>\<^verbatim>\<open>applicaFiltri\<close>; the arguments are the values of the two selects, \<open>None\<close> for the
  empty value of ``all''. \<^verbatim>\<open>if (anno)\<close> is false for \<^verbatim>\<open>null\<close> and for 0,
  \<^verbatim>\<open>if (mese !== null)\<close> only for \<^verbatim>\<open>null\<close>.\<close>

definition applicaFiltri :: "int option \<Rightarrow> int option \<Rightarrow> archivio \<Rightarrow> archivio" where
  "applicaFiltri anno_sel mese_sel s =
     (let per_anno =
            (case anno_sel of
               None \<Rightarrow> allTrasferte s
             | Some a \<Rightarrow> if a = 0 then allTrasferte s else filter (\<lambda>t. anno t = a) (allTrasferte s));
          per_mese =
            (case mese_sel of
               None \<Rightarrow> per_anno
             | Some m \<Rightarrow> filter (\<lambda>t. mese t = m) per_anno)
      in visualizzaTutteLeTrasferte per_mese s)"

text \<open>The \<^verbatim>\<open>change\<close> listener of a row checkbox, when the user toggles the \<open>k\<close>-th
  checkbox of the table.\<close>

definition change_cb_trasferta :: "nat \<Rightarrow> archivio \<Rightarrow> archivio" where
  "change_cb_trasferta k s =
     (case tab s of
        None \<Rightarrow> s
      | Some t \<Rightarrow>
          if length (cb_trasferta t) \<le> k then s
          else (let checked = \<not> snd (cb_trasferta t ! k);
                    ident = fst (cb_trasferta t ! k);
                    sel = (if checked then set_add ident (selectedTrasferte s)
                           else set_delete ident (selectedTrasferte s))
                in s\<lparr>selectedTrasferte := sel,
                      tab := Some (t\<lparr>cb_trasferta := (cb_trasferta t)[k := (ident, checked)],
                                     contatore := length sel,
                                     cb_select_all := (length sel = length (cb_trasferta t))\<rparr>)\<rparr>))"

text \<open>The loop of the \<^verbatim>\<open>change\<close> listener of \<^verbatim>\<open>#cb-select-all\<close> over the row checkboxes:
  the set after every identifier was added (\<open>checked\<close>) or deleted.\<close>

fun seleziona_tutte :: "bool \<Rightarrow> (int \<times> bool) list \<Rightarrow> int list \<Rightarrow> int list" where
  "seleziona_tutte checked [] sel = sel"
| "seleziona_tutte checked (cb # cbs) sel =
     seleziona_tutte checked cbs
       (if checked then set_add (fst cb) sel else set_delete (fst cb) sel)"

text \<open>The \<^verbatim>\<open>change\<close> listener of \<^verbatim>\<open>#cb-select-all\<close>, run with the checkbox in the state
  \<open>checked\<close>: after a click on it, on \<^verbatim>\<open>#btn-select-all\<close> (\<open>True\<close>) or on
  \<^verbatim>\<open>#btn-deselect-all\<close> (\<open>False\<close>).\<close>

definition change_cb_select_all :: "bool \<Rightarrow> archivio \<Rightarrow> archivio" where
  "change_cb_select_all checked s =
     (case tab s of
        None \<Rightarrow> s
      | Some t \<Rightarrow>
          (let sel = seleziona_tutte checked (cb_trasferta t) (selectedTrasferte s)
           in s\<lparr>selectedTrasferte := sel,
                 tab := Some (t\<lparr>cb_trasferta := map (\<lambda>cb. (fst cb, checked)) (cb_trasferta t),
                                cb_select_all := checked,
                                contatore := length sel\<rparr>)\<rparr>))"

datatype evento_archivio =
    Filtri "int option" "int option"
  | Toggle_riga nat
  | Click_cb_select_all
  | Btn_select_all
  | Btn_deselect_all

fun on_evento_archivio :: "evento_archivio \<Rightarrow> archivio \<Rightarrow> archivio" where
  "on_evento_archivio (Filtri a m) s = applicaFiltri a m s"
| "on_evento_archivio (Toggle_riga k) s = change_cb_trasferta k s"
| "on_evento_archivio Click_cb_select_all s =
     (case tab s of None \<Rightarrow> s | Some t \<Rightarrow> change_cb_select_all (\<not> cb_select_all t) s)"
| "on_evento_archivio Btn_select_all s = change_cb_select_all True s"
| "on_evento_archivio Btn_deselect_all s = change_cb_select_all False s"

text \<open>The page after \<^verbatim>\<open>caricaTrasferte\<close> has loaded the list: nothing is selected and
  every trip is shown. \<open>trasferte\<close> is the reply of the server after the sort by date, most
  recent first.\<close>

definition caricaTrasferte :: "trasferta list \<Rightarrow> archivio" where
  "caricaTrasferte trasferte =
     visualizzaTutteLeTrasferte trasferte
       \<lparr>allTrasferte = trasferte, filteredTrasferte = [], selectedTrasferte = [], tab = None\<rparr>"

subsection \<open>archivio.js: exporting the selection\<close>

text \<open>How the request of an export ends: the fetch rejects; the reply is not ok and its
  JSON body has the \<^verbatim>\<open>error\<close> given (\<open>None\<close>: no such key); the reply is not ok and its
  body is not JSON; the reply is ok.\<close>

datatype esito_export =
    Export_rete_fallita
  | Export_non_ok "string option"
  | Export_non_ok_non_json
  | Export_ok

text \<open>\<^verbatim>\<open>error.error || messaggio\<close>: the empty string is falsy.\<close>

definition errore_o :: "string option \<Rightarrow> messaggio \<Rightarrow> messaggio" where
  "errore_o e m = (case e of None \<Rightarrow> m | Some t \<Rightarrow> if t = [] then m else Testo t)"

definition endpoint_export :: "formato \<Rightarrow> endpoint" where
  "endpoint_export f = (case f of Excel \<Rightarrow> Api_esporta_excel | Pdf \<Rightarrow> Api_esporta_pdf)"

definition nome_file_export :: "formato \<Rightarrow> nome_file" where
  "nome_file_export f = (case f of Excel \<Rightarrow> Trasferte_xlsx | Pdf \<Rightarrow> Trasferte_pdf)"

text \<open>\<^verbatim>\<open>esportaSelezionate(trasferte, formato)\<close>.\<close>

definition esportaSelezionate :: "trasferta list \<Rightarrow> formato \<Rightarrow> esito_export \<Rightarrow> effetto list" where
  "esportaSelezionate trasferte f ee =
     (if trasferte = [] then [Toast Nessuna_trasferta_da_esportare T_warning]
      else Toast (Generazione f) T_info #
           Richiesta POST (endpoint_export f) (Json_trasferta_ids (map t_id trasferte)) #
           (case ee of
              Export_rete_fallita \<Rightarrow> [Toast (Croce_Errore_durante_l_export f) T_error]
            | Export_non_ok e \<Rightarrow> [Toast (errore_o e (Errore_durante_l_export f)) T_error]
            | Export_non_ok_non_json \<Rightarrow> [Toast (Croce_Errore_durante_l_export f) T_error]
            | Export_ok \<Rightarrow>
                [Download (nome_file_export f),
                 Toast (Formato_esportato f (length trasferte)) T_success]))"

text \<open>The \<^verbatim>\<open>click\<close> listeners of \<^verbatim>\<open>#btn-export-selezionati-excel\<close> and
  \<^verbatim>\<open>#btn-export-selezionati-pdf\<close>.\<close>

definition click_export_selezionati :: "formato \<Rightarrow> archivio \<Rightarrow> esito_export \<Rightarrow> effetto list" where
  "click_export_selezionati f s ee =
     (if length (selectedTrasferte s) = 0 then [Toast Seleziona_almeno_una_trasferta T_warning]
      else esportaSelezionate
             (filter (\<lambda>t. t_id t \<in> set (selectedTrasferte s)) (filteredTrasferte s)) f ee)"

text \<open>The predicate of the filter in \<^verbatim>\<open>scaricaAllegatiZip\<close>: the first trip of
  \<^verbatim>\<open>filteredTrasferte\<close> with this id exists and has an attachment.\<close>

definition con_allegato :: "trasferta list \<Rightarrow> int \<Rightarrow> bool" where
  "con_allegato filtrate ident =
     (case find (\<lambda>t. t_id t = ident) filtrate of None \<Rightarrow> False | Some t \<Rightarrow> ha_allegato t)"

text \<open>\<^verbatim>\<open>scaricaAllegatiZip(traferteIds)\<close>.\<close>

definition scaricaAllegatiZip :: "int list \<Rightarrow> archivio \<Rightarrow> esito_export \<Rightarrow> effetto list" where
  "scaricaAllegatiZip traferteIds s ee =
     (let conAllegati = filter (con_allegato (filteredTrasferte s)) traferteIds in
      if conAllegati = []
      then [Toast Nessun_allegato_disponibile_nelle_trasferte_selezionate T_warning]
      else Richiesta POST Api_allegati_download_zip (Json_trasferta_ids conAllegati) #
           (case ee of
              Export_rete_fallita \<Rightarrow> [Toast Errore_durante_il_download T_error]
            | Export_non_ok e \<Rightarrow> [Toast (errore_o e Errore_durante_il_download) T_error]
            | Export_non_ok_non_json \<Rightarrow> [Toast Errore_durante_il_download T_error]
            | Export_ok \<Rightarrow>
                [Download Trasferte_allegati_zip,
                 Toast (ZIP_scaricato_con_allegati (length conAllegati)) T_success]))"

text \<open>The \<^verbatim>\<open>click\<close> listener of \<^verbatim>\<open>#btn-download-allegati-zip\<close>;
  \<^verbatim>\<open>Array.from(selectedTrasferte)\<close> lists the set in insertion order.\<close>

definition click_download_allegati_zip :: "archivio \<Rightarrow> esito_export \<Rightarrow> effetto list" where
  "click_download_allegati_zip s ee =
     (if length (selectedTrasferte s) = 0 then [Toast Seleziona_almeno_una_trasferta T_warning]
      else scaricaAllegatiZip (selectedTrasferte s) s ee)"

text \<open>Three trips for the concrete cases, most recent first: trips 3 and 2 of 2024, trip 1
  of 2023, only trip 2 with an attachment. In \<open>archivio_filtrato\<close> the user has ticked
  trip 1 and then chosen the year 2024, so that trips 3 and 2 are shown.\<close>

definition trasferte_esempio :: "trasferta list" where
  "trasferte_esempio =
     [\<lparr>t_id = 3, anno = 2024, mese = 5, ha_allegato = False\<rparr>,
      \<lparr>t_id = 2, anno = 2024, mese = 0, ha_allegato = True\<rparr>,
      \<lparr>t_id = 1, anno = 2023, mese = 11, ha_allegato = False\<rparr>]"

definition archivio_filtrato :: archivio where
  "archivio_filtrato =
     on_evento_archivio (Filtri (Some 2024) None)
       (on_evento_archivio (Toggle_riga 2) (caricaTrasferte trasferte_esempio))"


section \<open>Properties\<close>

subsection \<open>The product of doubles\<close>

text \<open>Rounding keeps the exact value within half a unit of the last digit kept, and a tie
  goes to the even neighbour.\<close>

lemma drop_digits_nearest:
  assumes "0 < k"
  shows "2 * \<bar>int (drop_digits k m * 2 ^ k) - int m\<bar> \<le> 2 ^ k"
proof -
  define q where "q = m div 2 ^ k"
  define r where "r = m mod 2 ^ k"
  define h :: nat where "h = 2 ^ (k - 1)"
  have "m = q * 2 ^ k + r"
    unfolding q_def r_def by (rule div_mult_mod_eq[symmetric])
  moreover have k: "(2::nat) ^ k = 2 * h"
    using assms unfolding h_def by (cases k) simp_all
  ultimately have m: "int m = int q * (2 * int h) + int r"
    by (metis of_nat_add of_nat_mult of_nat_numeral)
  have r: "int r < 2 * int h"
    using k by (simp add: r_def) (metis mod_less_divisor of_nat_less_iff of_nat_mult of_nat_numeral pos2 zero_less_power)
  have p: "(2::int) ^ k = 2 * int h"
    using k by (metis of_nat_mult of_nat_numeral of_nat_power)
  show ?thesis
  proof (cases "h < r \<or> (r = h \<and> odd q)")
    case True
    then have d: "drop_digits k m = q + 1"
      by (simp add: drop_digits_def Let_def q_def r_def h_def)
    have "int (drop_digits k m * 2 ^ k) = (int q + 1) * (2 * int h)"
      unfolding d using k by (simp add: algebra_simps)
    then have "int (drop_digits k m * 2 ^ k) - int m = 2 * int h - int r"
      using m by (simp add: algebra_simps)
    moreover have "int h \<le> int r" using True by auto
    ultimately show ?thesis using r p by simp
  next
    case False
    then have d: "drop_digits k m = q"
      by (simp add: drop_digits_def Let_def q_def r_def h_def)
    have "int (drop_digits k m * 2 ^ k) = int q * (2 * int h)"
      unfolding d using k by simp
    then have "int (drop_digits k m * 2 ^ k) - int m = - int r"
      using m by simp
    moreover have "int r \<le> int h" using False by auto
    ultimately show ?thesis using p by simp
  qed
qed

lemma drop_digits_tie:
  assumes "m mod 2 ^ k = 2 ^ (k - 1)"
  shows "even (drop_digits k m)"
  using assms by (simp add: drop_digits_def Let_def)










subsection \<open>The reimbursement estimate\<close>





subsection \<open>Validation of the create form\<close>

lemma cap_valido_1234: "\<not> cap_valido ''1234''"
  by (simp add: cap_valido_def)

lemma cap_valido_12345: "cap_valido ''12345''"
  by (simp add: cap_valido_def is_digit_def)

lemma dati_esempio_completi:
  "\<not> campo_mancante dati_esempio" "cap_valido (cap_partenza dati_esempio)"
  "cap_valido (cap_arrivo dati_esempio)"
  by (simp_all add: dati_esempio_def campo_mancante_def falsy_num_def falsy_int_def
      cap_valido_def is_digit_def)

lemma submit_bloccato:
  assumes "campo_mancante d \<or> \<not> cap_valido (cap_partenza d) \<or> \<not> cap_valido (cap_arrivo d)"
  shows "\<exists>msg. submit_form_trasferta d fs ec eu = [Toast msg T_warning]"
  using assms by (auto simp: submit_form_trasferta_def)

lemma submit_inviato:
  assumes "\<not> campo_mancante d" "cap_valido (cap_partenza d)" "cap_valido (cap_arrivo d)"
  shows "submit_form_trasferta d fs ec eu =
     Richiesta POST Api_trasferte (Json_dati d) #
       (case ec of Rifiutata \<Rightarrow> [Toast Errore_salvataggio_trasferta T_error]
        | Risolta rid \<Rightarrow> dopo_salvataggio rid fs eu)"
  using assms by (simp add: submit_form_trasferta_def)

text \<open>
  Claim C2, as the code has it. When a required text field (date, departure street, city or
  postal code, arrival street, city or postal code, reason) is empty, or the vehicle select
  parses to no number, or the distance parses to no number or to 0, or either postal code is
  not exactly five digits, the create handler shows one warning and issues no request. A
  postal code of 1234 blocks the submission; with every field filled and both postal codes
  12345 the POST is issued. (The test on the distance is \<^verbatim>\<open>!data.chilometri\<close>: a negative
  distance passes it.)
\<close>

theorem C2_validazione_create:
  "(data d = [] \<or> via_partenza d = [] \<or> citta_partenza d = [] \<or> cap_partenza d = [] \<or>
    via_arrivo d = [] \<or> citta_arrivo d = [] \<or> cap_arrivo d = [] \<or> motivo d = [] \<or>
    veicolo_id d = None \<or> chilometri d = None \<or> chilometri d = Some 0 \<or>
    \<not> cap_valido (cap_partenza d) \<or> \<not> cap_valido (cap_arrivo d) \<longrightarrow>
      (\<exists>msg. submit_form_trasferta d fs ec eu = [Toast msg T_warning]) \<and>
      \<not> list_ex is_richiesta (submit_form_trasferta d fs ec eu)) \<and>
   (cap_partenza d = ''1234'' \<or> cap_arrivo d = ''1234'' \<longrightarrow>
      \<not> list_ex is_richiesta (submit_form_trasferta d fs ec eu)) \<and>
   (\<not> campo_mancante d \<and> cap_partenza d = ''12345'' \<and> cap_arrivo d = ''12345'' \<longrightarrow>
      (\<exists>rest. submit_form_trasferta d fs ec eu = Richiesta POST Api_trasferte (Json_dati d) # rest))"
proof (intro conjI impI)
  assume a: "data d = [] \<or> via_partenza d = [] \<or> citta_partenza d = [] \<or> cap_partenza d = [] \<or>
    via_arrivo d = [] \<or> citta_arrivo d = [] \<or> cap_arrivo d = [] \<or> motivo d = [] \<or>
    veicolo_id d = None \<or> chilometri d = None \<or> chilometri d = Some 0 \<or>
    \<not> cap_valido (cap_partenza d) \<or> \<not> cap_valido (cap_arrivo d)"
  then have b: "campo_mancante d \<or> \<not> cap_valido (cap_partenza d) \<or> \<not> cap_valido (cap_arrivo d)"
    unfolding campo_mancante_def falsy_num_def falsy_int_def by blast
  from submit_bloccato[OF b] show "\<exists>msg. submit_form_trasferta d fs ec eu = [Toast msg T_warning]" .
  from submit_bloccato[OF b, of fs ec eu]
  show "\<not> list_ex is_richiesta (submit_form_trasferta d fs ec eu)" by auto
next
  assume "cap_partenza d = ''1234'' \<or> cap_arrivo d = ''1234''"
  then have "campo_mancante d \<or> \<not> cap_valido (cap_partenza d) \<or> \<not> cap_valido (cap_arrivo d)"
    using cap_valido_1234 by auto
  from submit_bloccato[OF this, of fs ec eu]
  show "\<not> list_ex is_richiesta (submit_form_trasferta d fs ec eu)" by auto
next
  assume "\<not> campo_mancante d \<and> cap_partenza d = ''12345'' \<and> cap_arrivo d = ''12345''"
  then show "\<exists>rest. submit_form_trasferta d fs ec eu = Richiesta POST Api_trasferte (Json_dati d) # rest"
    using cap_valido_12345 by (simp add: submit_inviato)
qed

theorem C2_validazione_create_witness:
  "\<not> list_ex is_richiesta
      (submit_form_trasferta (dati_esempio\<lparr>cap_partenza := ''1234''\<rparr>) None (Risolta (Some 1)) Upload_ok) \<and>
   (\<exists>msg. submit_form_trasferta (dati_esempio\<lparr>chilometri := Some 0\<rparr>) None (Risolta (Some 1)) Upload_ok
      = [Toast msg T_warning]) \<and>
   (\<exists>rest. submit_form_trasferta (dati_esempio\<lparr>cap_partenza := ''12345'', cap_arrivo := ''12345''\<rparr>)
      None (Risolta (Some 1)) Upload_ok =
      Richiesta POST Api_trasferte (Json_dati (dati_esempio\<lparr>cap_partenza := ''12345'', cap_arrivo := ''12345''\<rparr>)) # rest)"
  using
    C2_validazione_create [of "dati_esempio\<lparr>cap_partenza := ''1234''\<rparr>" None "Risolta (Some 1)" Upload_ok]
    C2_validazione_create [of "dati_esempio\<lparr>chilometri := Some 0\<rparr>" None "Risolta (Some 1)" Upload_ok]
    C2_validazione_create [of "dati_esempio\<lparr>cap_partenza := ''12345'', cap_arrivo := ''12345''\<rparr>"
      None "Risolta (Some 1)" Upload_ok]
  by (simp add: dati_esempio_def campo_mancante_def falsy_num_def falsy_int_def)

text \<open>
  The claim as stated fails for a distance that is negative: -5 is not strictly positive,
  every other field is valid, and the handler issues the POST.
\<close>

theorem C2_km_negativi_counterexample:
  "chilometri dati_km_negativi = Some (- 5) \<and>
   submit_form_trasferta dati_km_negativi None Rifiutata Upload_ok =
     [Richiesta POST Api_trasferte (Json_dati dati_km_negativi),
      Toast Errore_salvataggio_trasferta T_error]"
  by (simp add: dati_km_negativi_def dati_esempio_def submit_form_trasferta_def
      campo_mancante_def falsy_num_def falsy_int_def cap_valido_def is_digit_def)


subsection \<open>Attachments\<close>

lemma dopo_salvataggio_senza_file:
  "dopo_salvataggio rid None eu =
     [Toast Trasferta_salvata_con_successo T_success, Form_reset,
      Richiesta GET Api_trasferte Nessun_corpo]"
  by (simp add: dopo_salvataggio_def)

lemma dopo_salvataggio_upload_ok:
  "dopo_salvataggio rid (Some file) Upload_ok =
     [Toast Trasferta_salvata_con_successo T_success,
      Richiesta POST (Api_allegato_upload rid) (Form_data_file file),
      Toast Allegato_caricato_con_successo T_success, Form_reset,
      Richiesta GET Api_trasferte Nessun_corpo]"
  by (simp add: dopo_salvataggio_def caricaAllegatoTrasferta_def)

lemma dopo_salvataggio_upload_fallito:
  "dopo_salvataggio rid (Some file) (Upload_fallito msg) =
     [Toast Trasferta_salvata_con_successo T_success,
      Richiesta POST (Api_allegato_upload rid) (Form_data_file file),
      Toast (Errore_due_punti msg) T_error,
      Toast Trasferta_salvata_ma_errore_nell_upload_allegato T_warning, Form_reset,
      Richiesta GET Api_trasferte Nessun_corpo]"
  by (simp add: dopo_salvataggio_def caricaAllegatoTrasferta_def)

lemma upload_solo_dopo_create:
  assumes "list_ex is_upload (submit_form_trasferta d fs ec eu)"
  shows "\<exists>rid file rest. ec = Risolta rid \<and> fs = Some file \<and>
     submit_form_trasferta d fs ec eu =
       Richiesta POST Api_trasferte (Json_dati d) #
       Toast Trasferta_salvata_con_successo T_success #
       Richiesta POST (Api_allegato_upload rid) (Form_data_file file) # rest"
proof -
  have ok: "\<not> campo_mancante d" "cap_valido (cap_partenza d)" "cap_valido (cap_arrivo d)"
    using assms by (auto simp: submit_form_trasferta_def split: if_splits)
  have eq: "submit_form_trasferta d fs ec eu =
     Richiesta POST Api_trasferte (Json_dati d) #
       (case ec of Rifiutata \<Rightarrow> [Toast Errore_salvataggio_trasferta T_error]
        | Risolta rid \<Rightarrow> dopo_salvataggio rid fs eu)"
    using ok by (rule submit_inviato)
  obtain rid where ec: "ec = Risolta rid"
    using assms eq by (cases ec) auto
  obtain fl where fs: "fs = Some fl"
    using assms eq ec by (cases fs) (auto simp: dopo_salvataggio_senza_file)
  show ?thesis
    using eq ec fs
    by (cases eu) (auto simp: dopo_salvataggio_upload_ok dopo_salvataggio_upload_fallito)
qed

text \<open>
  Claim C8. A chosen file of more than 10 MB (10 * 1024 * 1024 bytes) is refused by the
  change handler with an error toast and the selection is emptied, so a later submit uploads
  nothing. Whenever the create handler issues an upload request, the POST that creates the
  trip was issued before it and has resolved. When the upload fails after the trip was
  created, the handler shows a warning, issues no DELETE, and goes on to reset the form and
  reload the list: the trip stays saved.
\<close>

theorem C8_allegati:
  "(10 * 1024 * 1024 < file_size file \<longrightarrow>
      change_allegato (Some file) st =
        (st\<lparr>files := None, preview_display := False\<rparr>, [Toast File_troppo_grande_max_10_MB T_error]) \<and>
      \<not> list_ex is_upload
          (submit_form_trasferta d (files (fst (change_allegato (Some file) st))) ec eu)) \<and>
   (list_ex is_upload (submit_form_trasferta d fs ec eu) \<longrightarrow>
      (\<exists>rid f rest. ec = Risolta rid \<and> fs = Some f \<and>
         submit_form_trasferta d fs ec eu =
           Richiesta POST Api_trasferte (Json_dati d) #
           Toast Trasferta_salvata_con_successo T_success #
           Richiesta POST (Api_allegato_upload rid) (Form_data_file f) # rest)) \<and>
   (\<not> campo_mancante d \<and> cap_valido (cap_partenza d) \<and> cap_valido (cap_arrivo d) \<longrightarrow>
      submit_form_trasferta d (Some f) (Risolta rid) (Upload_fallito msg) =
        [Richiesta POST Api_trasferte (Json_dati d),
         Toast Trasferta_salvata_con_successo T_success,
         Richiesta POST (Api_allegato_upload rid) (Form_data_file f),
         Toast (Errore_due_punti msg) T_error,
         Toast Trasferta_salvata_ma_errore_nell_upload_allegato T_warning,
         Form_reset,
         Richiesta GET Api_trasferte Nessun_corpo] \<and>
      \<not> list_ex is_delete (submit_form_trasferta d (Some f) (Risolta rid) (Upload_fallito msg)))"
proof (intro conjI impI)
  assume big: "10 * 1024 * 1024 < file_size file"
  then show ch: "change_allegato (Some file) st =
        (st\<lparr>files := None, preview_display := False\<rparr>, [Toast File_troppo_grande_max_10_MB T_error])"
    by (simp add: change_allegato_def)
  have "\<not> list_ex is_upload (submit_form_trasferta d None ec eu)"
    using upload_solo_dopo_create[of d None ec eu] by auto
  then show "\<not> list_ex is_upload
          (submit_form_trasferta d (files (fst (change_allegato (Some file) st))) ec eu)"
    by (simp add: ch)
next
  assume "list_ex is_upload (submit_form_trasferta d fs ec eu)"
  then show "\<exists>rid f rest. ec = Risolta rid \<and> fs = Some f \<and>
         submit_form_trasferta d fs ec eu =
           Richiesta POST Api_trasferte (Json_dati d) #
           Toast Trasferta_salvata_con_successo T_success #
           Richiesta POST (Api_allegato_upload rid) (Form_data_file f) # rest"
    by (rule upload_solo_dopo_create)
next
  assume ok: "\<not> campo_mancante d \<and> cap_valido (cap_partenza d) \<and> cap_valido (cap_arrivo d)"
  then show eq: "submit_form_trasferta d (Some f) (Risolta rid) (Upload_fallito msg) =
        [Richiesta POST Api_trasferte (Json_dati d),
         Toast Trasferta_salvata_con_successo T_success,
         Richiesta POST (Api_allegato_upload rid) (Form_data_file f),
         Toast (Errore_due_punti msg) T_error,
         Toast Trasferta_salvata_ma_errore_nell_upload_allegato T_warning,
         Form_reset,
         Richiesta GET Api_trasferte Nessun_corpo]"
    by (simp add: submit_inviato dopo_salvataggio_upload_fallito)
  show "\<not> list_ex is_delete (submit_form_trasferta d (Some f) (Risolta rid) (Upload_fallito msg))"
    by (simp add: eq)
qed

theorem C8_allegati_witness:
  "fst (change_allegato (Some file_grande) input_allegato_vuoto) = input_allegato_vuoto \<and>
   snd (change_allegato (Some file_grande) input_allegato_vuoto) =
     [Toast File_troppo_grande_max_10_MB T_error] \<and>
   files (fst (change_allegato (Some file_piccolo) input_allegato_vuoto)) = Some file_piccolo \<and>
   (\<exists>rest. submit_form_trasferta dati_esempio (Some file_piccolo) (Risolta (Some 7)) Upload_ok =
      Richiesta POST Api_trasferte (Json_dati dati_esempio) #
      Toast Trasferta_salvata_con_successo T_success #
      Richiesta POST (Api_allegato_upload (Some 7)) (Form_data_file file_piccolo) # rest) \<and>
   \<not> list_ex is_delete
      (submit_form_trasferta dati_esempio (Some file_piccolo) (Risolta (Some 7)) (Upload_fallito ''HTTP 500''))"
  using
    C8_allegati [of file_grande input_allegato_vuoto dati_esempio "Risolta (Some 7)" Upload_ok
      "Some file_piccolo" file_piccolo "Some 7" "''HTTP 500''"]
    dati_esempio_completi
  by (simp add: file_grande_def input_allegato_vuoto_def change_allegato_def file_piccolo_def
      dopo_salvataggio_upload_ok submit_inviato)

subsection \<open>The edit form\<close>

text \<open>
  Claim C9 does not hold of the code: the edit handler checks the two postal codes only. On
  a form whose reason is empty the create handler blocks with the required-fields warning,
  while the edit handler issues the PUT.
\<close>

theorem C9_edit_senza_controlli:
  "submit_form_trasferta dati_senza_motivo None (Risolta (Some 7)) Upload_ok =
     [Toast Compila_tutti_i_campi_obbligatori T_warning] \<and>
   submit_form_edit_trasferta (Some 7) dati_senza_motivo (Risolta ()) =
     [Richiesta PUT (Api_trasferte_id (Some 7)) (Json_dati dati_senza_motivo),
      Toast Trasferta_modificata_con_successo T_success, Modal_close,
      Richiesta GET Api_trasferte Nessun_corpo]"
  by (simp add: dati_senza_motivo_def dati_esempio_def submit_form_trasferta_def
      submit_form_edit_trasferta_def campo_mancante_def cap_valido_def is_digit_def)

subsection \<open>The geocoding client\<close>

text \<open>
  The requests of a call are issued before its fetch ends, so they do not depend on how it
  ends.
\<close>

lemma richieste_indipendenti:
  "richieste (addressAutocompleteSearch q cc ef) =
     (if length q < 2 then [] else [richiesta_nominatim q cc])"
  by (auto simp: addressAutocompleteSearch_def split: prod.splits sum.splits)

lemma ricerca_guardia:
  "length q < 2 \<Longrightarrow>
   addressAutocompleteSearch q cc ef = \<lparr>richieste = [], console = [], valore = Inr []\<rparr>"
  by (auto simp: addressAutocompleteSearch_def)

lemma valore_Inr: "\<exists>rs. valore (addressAutocompleteSearch q cc ef) = Inr rs"
  by (auto simp: addressAutocompleteSearch_def split: prod.splits sum.splits)

lemma ricerca_try_fallimento:
  assumes "ef = Fetch_timeout \<or> ef = Fetch_errore_rete \<or>
     (\<exists>st b. ef = Fetch_risposta st b \<and>
        (st < 200 \<or> 299 < st \<or> b = None \<or> (\<exists>v. b = Some v \<and> (\<forall>rs. v \<noteq> JArr rs))))"
  shows "(\<exists>lines. ricerca_try ef = (lines, Inr []) \<and> list_ex (\<lambda>l. fst l = L_error) lines) \<or>
         (\<exists>lines e. ricerca_try ef = (lines, Inl e))"
  using assms by (auto simp: ricerca_try_def split: jsval.splits)

lemma ricerca_catch_registra: "list_ex (\<lambda>l. fst l \<noteq> L_log) (ricerca_catch e)"
  by (simp add: ricerca_catch_def)

lemma ricerca_fallimento:
  assumes "2 \<le> length q"
    and "ef = Fetch_timeout \<or> ef = Fetch_errore_rete \<or>
     (\<exists>st b. ef = Fetch_risposta st b \<and>
        (st < 200 \<or> 299 < st \<or> b = None \<or> (\<exists>v. b = Some v \<and> (\<forall>rs. v \<noteq> JArr rs))))"
  shows "valore (addressAutocompleteSearch q cc ef) = Inr [] \<and>
         list_ex (\<lambda>l. fst l \<noteq> L_log) (console (addressAutocompleteSearch q cc ef))"
proof -
  have g: "\<not> (q = [] \<or> length q < 2)" using assms(1) by auto
  from ricerca_try_fallimento[OF assms(2)] show ?thesis
  proof (elim disjE exE conjE)
    fix lines assume t: "ricerca_try ef = (lines, Inr [])" and "list_ex (\<lambda>l. fst l = L_error) lines"
    then obtain l where "l \<in> set lines" "fst l = L_error"
      by (auto simp: list_ex_iff)
    then have "list_ex (\<lambda>l. fst l \<noteq> L_log) lines"
      unfolding list_ex_iff by (intro bexI[of _ l]) simp_all
    with t show ?thesis using g
      by (simp add: addressAutocompleteSearch_def)
  next
    fix lines e assume "ricerca_try ef = (lines, Inl e)"
    then show ?thesis using g ricerca_catch_registra[of e]
      by (auto simp: addressAutocompleteSearch_def list_ex_iff)
  qed
qed

text \<open>
  Claim C4. The promise of the client never rejects: it resolves with an array however the
  fetch ends. When the timeout aborts the fetch, the fetch fails, the status is outside
  200..299, the body is not JSON or is not an array, it resolves with the empty array and a
  warning or an error line was written to the console.
\<close>

theorem C4_ricerca_non_lancia:
  "(\<exists>rs. valore (addressAutocompleteSearch q cc ef) = Inr rs) \<and>
   (2 \<le> length q \<and>
    (ef = Fetch_timeout \<or> ef = Fetch_errore_rete \<or>
     (\<exists>st b. ef = Fetch_risposta st b \<and>
        (st < 200 \<or> 299 < st \<or> b = None \<or> (\<exists>v. b = Some v \<and> (\<forall>rs. v \<noteq> JArr rs))))) \<longrightarrow>
      valore (addressAutocompleteSearch q cc ef) = Inr [] \<and>
      list_ex (\<lambda>l. fst l \<noteq> L_log) (console (addressAutocompleteSearch q cc ef)))"
  using valore_Inr ricerca_fallimento by blast

theorem C4_ricerca_non_lancia_witness:
  "addressAutocompleteSearch ''roma'' ''it'' Fetch_timeout =
     \<lparr>richieste = [richiesta_nominatim ''roma'' ''it''],
      console = [(L_log, ''[ADDRESS-AUTOCOMPLETE] Ricerca:''), (L_warn, ''[ADDRESS-AUTOCOMPLETE] Timeout'')],
      valore = Inr []\<rparr> \<and>
   valore (addressAutocompleteSearch ''roma'' ''it'' Fetch_errore_rete) = Inr [] \<and>
   valore (addressAutocompleteSearch ''roma'' ''it'' (Fetch_risposta 503 None)) = Inr [] \<and>
   valore (addressAutocompleteSearch ''roma'' ''it'' (Fetch_risposta 200 (Some (JObj [])))) = Inr [] \<and>
   valore (addressAutocompleteSearch ''roma'' ''it'' (Fetch_risposta 200 (Some (JArr [JNull])))) = Inr [] \<and>
   valore (addressAutocompleteSearch ''roma'' ''it'' (risposta_esempio ''Roma'')) =
     Inr [suggerimento_esempio ''Roma'']"
  using C4_ricerca_non_lancia [of "''roma''" "''it''" Fetch_timeout]
    C4_ricerca_non_lancia [of "''roma''" "''it''" Fetch_errore_rete]
    C4_ricerca_non_lancia [of "''roma''" "''it''" "Fetch_risposta 503 None"]
    C4_ricerca_non_lancia [of "''roma''" "''it''" "Fetch_risposta 200 (Some (JObj []))"]
  by (simp add: addressAutocompleteSearch_def ricerca_try_def ricerca_catch_def normalizza_def
      risposta_esempio_def suggerimento_esempio_def)


subsection \<open>The autocomplete controller\<close>

lemma trim_js_esempi:
  "trim_js ''ro'' = ''ro''" "trim_js ''rom'' = ''rom''" "trim_js ''roma'' = ''roma''"
  "trim_js '' a '' = ''a''" "trim_js ''   '' = []"
  by (simp_all add: trim_js_def is_white_space_def)

lemma valore_risposta_esempio:
  "2 \<le> length q \<Longrightarrow>
   valore (addressAutocompleteSearch q cc (risposta_esempio nome)) = Inr [suggerimento_esempio nome]"
  by (auto simp: addressAutocompleteSearch_def ricerca_try_def normalizza_def
      risposta_esempio_def suggerimento_esempio_def)

text \<open>The controller is the client's only caller: the query of a search it starts is the
  trimmed value of the field and has at least 2 characters.\<close>

lemma query_del_controller:
  assumes "debounceTimer (on_input v s) = Some q"
  shows "q = trim_js v \<and> 2 \<le> length q \<and>
         snd (on_timer_debounce (on_input v s)) = [richiesta_nominatim q (countryCode s)]"
proof -
  from assms have q: "q = trim_js v" "2 \<le> length q"
    by (auto simp: on_input_def Let_def split: if_splits)
  then have "countryCode (on_input v s) = countryCode s"
    by (simp add: on_input_def Let_def)
  with assms q show ?thesis
    by (simp add: on_timer_debounce_def richieste_indipendenti)
qed

text \<open>
  Claim C5. The client returns the empty array, issues no request and logs nothing for
  every query of fewer than 2 characters (the length of the query as it is passed; its
  caller passes trimmed queries). The controller, for every input value whose trimmed
  length is below 2, clears the pending timeout, empties and hides the list and sets no new
  timeout, so that no search starts and no request is issued.
\<close>

theorem C5_query_corta:
  "(length q < 2 \<longrightarrow>
      addressAutocompleteSearch q cc ef = \<lparr>richieste = [], console = [], valore = Inr []\<rparr>) \<and>
   (length (trim_js v) < 2 \<longrightarrow>
      passo (Input v) s =
        (s\<lparr>debounceTimer := None, currentRequest := False, list_show := False,
           list_html := Lista_vuota\<rparr>, []) \<and>
      snd (esegui [Input v, Timer_debounce] s) = [])"
  by (simp add: ricerca_guardia on_input_def Let_def on_timer_debounce_def)

theorem C5_query_corta_witness:
  "richieste (addressAutocompleteSearch ''r'' ''it'' (risposta_esempio ''Roma'')) = [] \<and>
   valore (addressAutocompleteSearch ''r'' ''it'' (risposta_esempio ''Roma'')) = Inr [] \<and>
   esegui [Input '' a '', Timer_debounce]
      ((initAddressAutocomplete ''it'')\<lparr>list_show := True, list_html := Nessun_risultato_trovato\<rparr>)
     = (initAddressAutocomplete ''it'', [])"
  using C5_query_corta [of "''r''" "''it''" "risposta_esempio ''Roma''" "'' a ''"
      "(initAddressAutocomplete ''it'')\<lparr>list_show := True, list_html := Nessun_risultato_trovato\<rparr>"]
  by (simp add: trim_js_esempi initAddressAutocomplete_def on_timer_debounce_def)

text \<open>
  Claim C3 does not hold of the code: \<^verbatim>\<open>currentRequest\<close> is one flag shared by all the
  searches of a binding, not a token of the search. In the first run search 0 was
  superseded by search 1, ends after search 1 has ended, and its result is written to the
  list, because search 2 has set the flag again; search 2, the most recent, is then
  discarded. In the second run the result of search 0 is written while search 1, the
  current one, is in flight.
\<close>

theorem C3_risposta_superata_mostrata:
  "list_html (fst (esegui traccia_tre_ricerche (initAddressAutocomplete ''it''))) =
     Voci [suggerimento_esempio ''Rovigo''] \<and>
   list_show (fst (esegui traccia_tre_ricerche (initAddressAutocomplete ''it''))) \<and>
   in_volo (fst (esegui traccia_tre_ricerche (initAddressAutocomplete ''it''))) = [(2, ''roma'')] \<and>
   list_html (fst (esegui (traccia_tre_ricerche @ [Fetch_concluso 2 (risposta_esempio ''Roma'')])
      (initAddressAutocomplete ''it''))) = Voci [suggerimento_esempio ''Rovigo''] \<and>
   list_html (fst (esegui traccia_due_ricerche (initAddressAutocomplete ''it''))) =
     Voci [suggerimento_esempio ''Rovigo'']"
  by (simp add: traccia_tre_ricerche_def traccia_due_ricerche_def initAddressAutocomplete_def
      trim_js_esempi on_input_def on_timer_debounce_def on_fetch_concluso_def dopo_ricerca_def
      valore_risposta_esempio richieste_indipendenti suggerimento_esempio_def Let_def)

subsection \<open>The selection of the archive\<close>








lemma toggle_riga:
  assumes "tab s = Some t" "k < length (cb_trasferta t)"
  shows "\<exists>t'. tab (change_cb_trasferta k s) = Some t' \<and>
     length (cb_trasferta t') = length (cb_trasferta t) \<and>
     contatore t' = length (selectedTrasferte (change_cb_trasferta k s)) \<and>
     cb_select_all t' =
       (length (selectedTrasferte (change_cb_trasferta k s)) = length (cb_trasferta t'))"
  using assms by (simp add: change_cb_trasferta_def Let_def)



lemma visualizza_selected:
  "selectedTrasferte (visualizzaTutteLeTrasferte ts s) = selectedTrasferte s"
  by (simp add: visualizzaTutteLeTrasferte_def)





lemma archivio_filtrato_eq:
  "archivio_filtrato =
     \<lparr>allTrasferte = trasferte_esempio,
      filteredTrasferte = [\<lparr>t_id = 3, anno = 2024, mese = 5, ha_allegato = False\<rparr>,
                           \<lparr>t_id = 2, anno = 2024, mese = 0, ha_allegato = True\<rparr>],
      selectedTrasferte = [1],
      tab = Some \<lparr>cb_trasferta = [(3, False), (2, False)], cb_select_all = False,
                   contatore = 1\<rparr>\<rparr>"
  by (simp add: archivio_filtrato_def caricaTrasferte_def trasferte_esempio_def
      visualizzaTutteLeTrasferte_def change_cb_trasferta_def applicaFiltri_def set_add_def Let_def)






subsection \<open>The quick filters and the selection\<close>

lemma applicaFiltri_selected: "selectedTrasferte (applicaFiltri a m s) = selectedTrasferte s"
  by (simp add: applicaFiltri_def Let_def visualizza_selected)

lemma fold_applicaFiltri_selected:
  "selectedTrasferte (fold (\<lambda>f. applicaFiltri (fst f) (snd f)) fs s) = selectedTrasferte s"
  by (induction fs arbitrary: s) (simp_all add: applicaFiltri_selected)

lemma visualizza_tab_Some:
  assumes "tab (visualizzaTutteLeTrasferte ts s) = Some t"
  shows "cb_trasferta t = map (\<lambda>tr. (t_id tr, t_id tr \<in> set (selectedTrasferte s)))
           (filteredTrasferte (visualizzaTutteLeTrasferte ts s))"
    "contatore t = length (selectedTrasferte s)" "\<not> cb_select_all t"
  using assms by (auto simp: visualizzaTutteLeTrasferte_def split: if_splits)

lemma applicaFiltri_tab_Some:
  assumes "tab (applicaFiltri a m s) = Some t"
  shows "cb_trasferta t = map (\<lambda>tr. (t_id tr, t_id tr \<in> set (selectedTrasferte s)))
           (filteredTrasferte (applicaFiltri a m s))"
    "contatore t = length (selectedTrasferte s)"
  using assms visualizza_tab_Some(1,2) unfolding applicaFiltri_def Let_def by blast+

text \<open>
  Claim C10. Applying the year and month filters, once or any number of times, leaves the
  selection set as it is. In the table rendered after a filter change a row checkbox is
  checked exactly when its trip is in the set, and the counter shows the size of the whole
  set; toggling a row then compares the size of the whole set, identifiers of trips that are
  not rendered included, with the number of rendered rows.
\<close>

theorem C10_filtri_conservano_selezione:
  "selectedTrasferte (applicaFiltri a m s) = selectedTrasferte s \<and>
   selectedTrasferte (fold (\<lambda>f. applicaFiltri (fst f) (snd f)) fs s) = selectedTrasferte s \<and>
   (tab (applicaFiltri a m s) = Some t \<longrightarrow>
      cb_trasferta t = map (\<lambda>tr. (t_id tr, t_id tr \<in> set (selectedTrasferte s)))
                         (filteredTrasferte (applicaFiltri a m s)) \<and>
      contatore t = length (selectedTrasferte s) \<and>
      (k < length (cb_trasferta t) \<longrightarrow>
         (\<exists>t'. tab (change_cb_trasferta k (applicaFiltri a m s)) = Some t' \<and>
            contatore t' = length (selectedTrasferte (change_cb_trasferta k (applicaFiltri a m s))) \<and>
            cb_select_all t' =
              (length (selectedTrasferte (change_cb_trasferta k (applicaFiltri a m s))) =
               length (cb_trasferta t')))))"
proof (intro conjI impI)
  show "selectedTrasferte (applicaFiltri a m s) = selectedTrasferte s"
    by (rule applicaFiltri_selected)
  show "selectedTrasferte (fold (\<lambda>f. applicaFiltri (fst f) (snd f)) fs s) = selectedTrasferte s"
    by (rule fold_applicaFiltri_selected)
next
  assume t: "tab (applicaFiltri a m s) = Some t"
  show "cb_trasferta t = map (\<lambda>tr. (t_id tr, t_id tr \<in> set (selectedTrasferte s)))
                         (filteredTrasferte (applicaFiltri a m s))"
    by (rule applicaFiltri_tab_Some(1)[OF t])
  show "contatore t = length (selectedTrasferte s)"
    by (rule applicaFiltri_tab_Some(2)[OF t])
  assume "k < length (cb_trasferta t)"
  with t show "\<exists>t'. tab (change_cb_trasferta k (applicaFiltri a m s)) = Some t' \<and>
            contatore t' = length (selectedTrasferte (change_cb_trasferta k (applicaFiltri a m s))) \<and>
            cb_select_all t' =
              (length (selectedTrasferte (change_cb_trasferta k (applicaFiltri a m s))) =
               length (cb_trasferta t'))"
    using toggle_riga[of "applicaFiltri a m s" t k] by blast
qed

text \<open>
  Trip 1 is ticked, then the year 2024 is chosen: the set is still [1] although the rendered
  rows are trips 3 and 2, and the counter shows 1. Showing all years again renders trip 1
  checked. Ticking trip 3 under the filter gives size 2 for 2 rows, and the select-all
  checkbox is checked although trip 2 is not selected.
\<close>

theorem C10_filtri_conservano_selezione_witness:
  "selectedTrasferte (applicaFiltri (Some 2024) None
      (change_cb_trasferta 2 (caricaTrasferte trasferte_esempio))) = [1] \<and>
   tab (applicaFiltri (Some 2024) None (change_cb_trasferta 2 (caricaTrasferte trasferte_esempio))) =
     Some \<lparr>cb_trasferta = [(3, False), (2, False)], cb_select_all = False, contatore = 1\<rparr> \<and>
   tab (applicaFiltri None None (applicaFiltri (Some 2024) None
      (change_cb_trasferta 2 (caricaTrasferte trasferte_esempio)))) =
     Some \<lparr>cb_trasferta = [(3, False), (2, False), (1, True)], cb_select_all = False,
           contatore = 1\<rparr> \<and>
   tab (change_cb_trasferta 0 (applicaFiltri (Some 2024) None
      (change_cb_trasferta 2 (caricaTrasferte trasferte_esempio)))) =
     Some \<lparr>cb_trasferta = [(3, True), (2, False)], cb_select_all = True, contatore = 2\<rparr>"
  using C10_filtri_conservano_selezione [of "Some 2024" None
      "change_cb_trasferta 2 (caricaTrasferte trasferte_esempio)" "[]"
      "\<lparr>cb_trasferta = [(3, False), (2, False)], cb_select_all = False, contatore = 1\<rparr>" 0]
  by (simp add: caricaTrasferte_def trasferte_esempio_def visualizzaTutteLeTrasferte_def
      change_cb_trasferta_def applicaFiltri_def set_add_def Let_def)

subsection \<open>Exporting the selection\<close>

lemma export_vuota:
  "selectedTrasferte s = [] \<Longrightarrow>
   click_export_selezionati f s ee = [Toast Seleziona_almeno_una_trasferta T_warning]"
  "selectedTrasferte s = [] \<Longrightarrow>
   click_download_allegati_zip s ee = [Toast Seleziona_almeno_una_trasferta T_warning]"
  by (simp_all add: click_export_selezionati_def click_download_allegati_zip_def)

lemma export_non_vuota:
  assumes "selectedTrasferte s \<noteq> []"
    and "scelte = filter (\<lambda>t. t_id t \<in> set (selectedTrasferte s)) (filteredTrasferte s)"
  shows "scelte = [] \<Longrightarrow>
      click_export_selezionati f s ee = [Toast Nessuna_trasferta_da_esportare T_warning]"
    "scelte \<noteq> [] \<Longrightarrow>
      \<exists>rest. click_export_selezionati f s ee =
        Toast (Generazione f) T_info #
        Richiesta POST (endpoint_export f) (Json_trasferta_ids (map t_id scelte)) # rest"
    "scelte \<noteq> [] \<Longrightarrow>
      click_export_selezionati f s Export_ok =
        [Toast (Generazione f) T_info,
         Richiesta POST (endpoint_export f) (Json_trasferta_ids (map t_id scelte)),
         Download (nome_file_export f),
         Toast (Formato_esportato f (length scelte)) T_success]"
  using assms by (simp_all add: click_export_selezionati_def esportaSelezionate_def)

lemma zip_non_vuota:
  assumes "selectedTrasferte s \<noteq> []"
    and "con = filter (con_allegato (filteredTrasferte s)) (selectedTrasferte s)"
  shows "con = [] \<Longrightarrow>
      click_download_allegati_zip s ee =
        [Toast Nessun_allegato_disponibile_nelle_trasferte_selezionate T_warning]"
    "con \<noteq> [] \<Longrightarrow>
      \<exists>rest. click_download_allegati_zip s ee =
        Richiesta POST Api_allegati_download_zip (Json_trasferta_ids con) # rest"
    "con \<noteq> [] \<Longrightarrow>
      click_download_allegati_zip s Export_ok =
        [Richiesta POST Api_allegati_download_zip (Json_trasferta_ids con),
         Download Trasferte_allegati_zip,
         Toast (ZIP_scaricato_con_allegati (length con)) T_success]"
  using assms by (simp_all add: click_download_allegati_zip_def scaricaAllegatiZip_def Let_def)

lemma scelte_tutte:
  assumes "set sel \<subseteq> t_id ` set filtrate"
  shows "set (map t_id (filter (\<lambda>t. t_id t \<in> set sel) filtrate)) = set sel"
  using assms by auto

text \<open>
  Claim C7, as the code has it. With an empty selection set each of the three export
  buttons shows a warning and issues no request. With a non-empty set, the Excel and PDF
  buttons send the identifiers of the trips of the filtered list that are in the set, in
  the order of the list, and download the reply when it is ok; when no trip of the filtered
  list is in the set they show a warning and issue no request. The ZIP button sends the
  selected identifiers whose trip is in the filtered list and has an attachment, and shows a
  warning without a request when there is none. When every selected trip is in the filtered
  list, the identifiers sent for Excel and PDF are those of the set.
\<close>

theorem C7_export_selezione:
  "(selectedTrasferte s = [] \<longrightarrow>
      click_export_selezionati f s ee = [Toast Seleziona_almeno_una_trasferta T_warning] \<and>
      click_download_allegati_zip s ee = [Toast Seleziona_almeno_una_trasferta T_warning]) \<and>
   (selectedTrasferte s \<noteq> [] \<and>
    scelte = filter (\<lambda>t. t_id t \<in> set (selectedTrasferte s)) (filteredTrasferte s) \<and>
    con = filter (con_allegato (filteredTrasferte s)) (selectedTrasferte s) \<longrightarrow>
      (scelte = [] \<longrightarrow>
         click_export_selezionati f s ee = [Toast Nessuna_trasferta_da_esportare T_warning]) \<and>
      (scelte \<noteq> [] \<longrightarrow>
         (\<exists>rest. click_export_selezionati f s ee =
            Toast (Generazione f) T_info #
            Richiesta POST (endpoint_export f) (Json_trasferta_ids (map t_id scelte)) # rest) \<and>
         click_export_selezionati f s Export_ok =
           [Toast (Generazione f) T_info,
            Richiesta POST (endpoint_export f) (Json_trasferta_ids (map t_id scelte)),
            Download (nome_file_export f),
            Toast (Formato_esportato f (length scelte)) T_success]) \<and>
      (con = [] \<longrightarrow>
         click_download_allegati_zip s ee =
           [Toast Nessun_allegato_disponibile_nelle_trasferte_selezionate T_warning]) \<and>
      (con \<noteq> [] \<longrightarrow>
         (\<exists>rest. click_download_allegati_zip s ee =
            Richiesta POST Api_allegati_download_zip (Json_trasferta_ids con) # rest) \<and>
         click_download_allegati_zip s Export_ok =
           [Richiesta POST Api_allegati_download_zip (Json_trasferta_ids con),
            Download Trasferte_allegati_zip,
            Toast (ZIP_scaricato_con_allegati (length con)) T_success]) \<and>
      (set (selectedTrasferte s) \<subseteq> t_id ` set (filteredTrasferte s) \<longrightarrow>
         set (map t_id scelte) = set (selectedTrasferte s)))"
proof (intro conjI impI)
  assume "selectedTrasferte s = []"
  then show "click_export_selezionati f s ee = [Toast Seleziona_almeno_una_trasferta T_warning]"
    "click_download_allegati_zip s ee = [Toast Seleziona_almeno_una_trasferta T_warning]"
    by (rule export_vuota)+
next
  assume a: "selectedTrasferte s \<noteq> [] \<and>
    scelte = filter (\<lambda>t. t_id t \<in> set (selectedTrasferte s)) (filteredTrasferte s) \<and>
    con = filter (con_allegato (filteredTrasferte s)) (selectedTrasferte s)"
  then have ne: "selectedTrasferte s \<noteq> []"
    and sc: "scelte = filter (\<lambda>t. t_id t \<in> set (selectedTrasferte s)) (filteredTrasferte s)"
    and co: "con = filter (con_allegato (filteredTrasferte s)) (selectedTrasferte s)"
    by simp_all
  {
    assume "scelte = []"
    then show "click_export_selezionati f s ee = [Toast Nessuna_trasferta_da_esportare T_warning]"
      by (rule export_non_vuota(1)[OF ne sc])
  }
  {
    assume n: "scelte \<noteq> []"
    show "\<exists>rest. click_export_selezionati f s ee =
            Toast (Generazione f) T_info #
            Richiesta POST (endpoint_export f) (Json_trasferta_ids (map t_id scelte)) # rest"
      by (rule export_non_vuota(2)[OF ne sc n])
    show "click_export_selezionati f s Export_ok =
           [Toast (Generazione f) T_info,
            Richiesta POST (endpoint_export f) (Json_trasferta_ids (map t_id scelte)),
            Download (nome_file_export f),
            Toast (Formato_esportato f (length scelte)) T_success]"
      by (rule export_non_vuota(3)[OF ne sc n])
  }
  {
    assume "con = []"
    then show "click_download_allegati_zip s ee =
           [Toast Nessun_allegato_disponibile_nelle_trasferte_selezionate T_warning]"
      by (rule zip_non_vuota(1)[OF ne co])
  }
  {
    assume n: "con \<noteq> []"
    show "\<exists>rest. click_download_allegati_zip s ee =
            Richiesta POST Api_allegati_download_zip (Json_trasferta_ids con) # rest"
      by (rule zip_non_vuota(2)[OF ne co n])
    show "click_download_allegati_zip s Export_ok =
           [Richiesta POST Api_allegati_download_zip (Json_trasferta_ids con),
            Download Trasferte_allegati_zip,
            Toast (ZIP_scaricato_con_allegati (length con)) T_success]"
      by (rule zip_non_vuota(3)[OF ne co n])
  }
  {
    assume "set (selectedTrasferte s) \<subseteq> t_id ` set (filteredTrasferte s)"
    then show "set (map t_id scelte) = set (selectedTrasferte s)"
      unfolding sc by (rule scelte_tutte)
  }
qed

theorem C7_export_selezione_witness:
  "click_export_selezionati Excel (caricaTrasferte trasferte_esempio) Export_ok =
     [Toast Seleziona_almeno_una_trasferta T_warning] \<and>
   click_export_selezionati Pdf (change_cb_trasferta 1 archivio_filtrato) Export_ok =
     [Toast (Generazione Pdf) T_info,
      Richiesta POST Api_esporta_pdf (Json_trasferta_ids [2]),
      Download Trasferte_pdf,
      Toast (Formato_esportato Pdf 1) T_success] \<and>
   click_download_allegati_zip (on_evento_archivio Btn_select_all archivio_filtrato) Export_ok =
     [Richiesta POST Api_allegati_download_zip (Json_trasferta_ids [2]),
      Download Trasferte_allegati_zip,
      Toast (ZIP_scaricato_con_allegati 1) T_success]"
  using
    C7_export_selezione [of "caricaTrasferte trasferte_esempio" Excel Export_ok "[]" "[]"]
    C7_export_selezione [of "change_cb_trasferta 1 archivio_filtrato" Pdf Export_ok
      "[\<lparr>t_id = 2, anno = 2024, mese = 0, ha_allegato = True\<rparr>]" "[2]"]
  by (simp add: caricaTrasferte_def trasferte_esempio_def visualizzaTutteLeTrasferte_def
      archivio_filtrato_eq change_cb_trasferta_def change_cb_select_all_def set_add_def Let_def
      click_download_allegati_zip_def scaricaAllegatiZip_def con_allegato_def
      click_export_selezionati_def esportaSelezionate_def endpoint_export_def
      nome_file_export_def)

text \<open>
  The claim as stated fails for a non-empty selection: with only trip 1 selected and hidden
  by the filter, the Excel button issues no request; with trips 1 and 3 selected, neither of
  which has an attachment in the filtered list, the ZIP button issues no request.
\<close>

theorem C7_selezione_nascosta_counterexample:
  "selectedTrasferte archivio_filtrato = [1] \<and>
   click_export_selezionati Excel archivio_filtrato Export_ok =
     [Toast Nessuna_trasferta_da_esportare T_warning] \<and>
   click_download_allegati_zip (change_cb_trasferta 0 archivio_filtrato) Export_ok =
     [Toast Nessun_allegato_disponibile_nelle_trasferte_selezionate T_warning]"
  by (simp add: archivio_filtrato_eq click_export_selezionati_def esportaSelezionate_def
      click_download_allegati_zip_def scaricaAllegatiZip_def con_allegato_def
      change_cb_trasferta_def set_add_def Let_def)

end
